theory Spec2Isabelle
  imports Main "HOL-Library.Sublist"
begin

section \<open>The two Conan recipes of thinkbox-my-library\<close>

text \<open>
  The repository holds two package recipes: \<^verbatim>\<open>MayaSDKConan/conanfile.py\<close> (class
  \<^verbatim>\<open>MayaSDKConan\<close>, package \<^verbatim>\<open>mayasdk\<close>) and \<^verbatim>\<open>conanfile.py\<close> (class
  \<^verbatim>\<open>ThinkboxMYLibraryConan\<close>, package \<^verbatim>\<open>thinkboxmylibrary\<close>). Both modules declare
  tables of the same names, so a module-level name is prefixed here with the package it
  belongs to, and a method with its class.
\<close>

subsection \<open>Exceptions\<close>

text \<open>
  Every raise is a value. \<open>KeyError\<close> is what an unchecked dictionary subscript raises.
  The recipes themselves raise \<^verbatim>\<open>Exception(...)\<close> at two places; the message of the
  first is a constant and the message of the second is formatted from the compiler tuple
  and the Maya version, which the constructor keeps as they are.
  The remaining constructors are the exceptions of the Python library calls that the
  recipes make.
\<close>

datatype error =
    KeyError
  | Exception_maya_version_must_be_the_same
  | Exception_not_a_valid_configuration "string \<times> string" string
  | IndexError
  | ValueError
  | FileNotFoundError
  | FileExistsError
  | NotADirectoryError
  | IsADirectoryError
  | SameFileError
  | ShutilError

text \<open>The errors that a recipe raises itself with \<^verbatim>\<open>raise Exception(...)\<close>.\<close>

fun is_configuration_error :: "error \<Rightarrow> bool" where
  "is_configuration_error Exception_maya_version_must_be_the_same = True"
| "is_configuration_error (Exception_not_a_valid_configuration t v) = True"
| "is_configuration_error e = False"

subsection \<open>Module-level tables\<close>

text \<open>A dictionary literal is an association list, looked up with \<open>map_of\<close>.\<close>

definition mayasdk_VALID_MAYA_CONFIGS :: "((string \<times> string) \<times> string set) list" where
  "mayasdk_VALID_MAYA_CONFIGS =
    [((''Visual Studio'', ''16''), {''2022'', ''2023''}),
     ((''gcc'', ''7''), {''2022'', ''2023''}),
     ((''gcc'', ''9''), {''2022'', ''2023''}),
     ((''apple-clang'', ''10.0''), {''2022'', ''2023''})]"

definition thinkboxmylibrary_VALID_MAYA_CONFIGS :: "((string \<times> string) \<times> string set) list" where
  "thinkboxmylibrary_VALID_MAYA_CONFIGS =
    [((''Visual Studio'', ''16''), {''2022'', ''2023''}),
     ((''gcc'', ''7''), {''2022'', ''2023''}),
     ((''gcc'', ''9''), {''2022'', ''2023''}),
     ((''apple-clang'', ''10.0''), {''2022'', ''2023''})]"

text \<open>\<^verbatim>\<open>SETTINGS['os']\<close> and \<^verbatim>\<open>SETTINGS['compiler']\<close>, the same in both modules.\<close>

definition SETTINGS_os :: "string list" where
  "SETTINGS_os = [''Windows'', ''Linux'', ''Macos'']"

definition SETTINGS_compiler :: "(string \<times> string list) list" where
  "SETTINGS_compiler =
    [(''Visual Studio'', [''16'']),
     (''gcc'', [''7'', ''9'']),
     (''apple-clang'', [''10.0''])]"

definition MAYA_SDK_LIBS :: "string list" where
  "MAYA_SDK_LIBS =
    [''Foundation'', ''OpenMaya'', ''OpenMayaAnim'', ''OpenMayaFX'', ''OpenMayaRender'',
     ''OpenMayaUI'']"

definition LIBRARY_EXTENSIONS :: "(string \<times> string) list" where
  "LIBRARY_EXTENSIONS = [(''Windows'', ''lib''), (''Linux'', ''so''), (''Macos'', ''dylib'')]"

definition LIBRARY_PREFIX :: "(string \<times> string) list" where
  "LIBRARY_PREFIX = [(''Windows'', ''''), (''Linux'', ''lib''), (''Macos'', ''lib'')]"

definition LIBRARY_DIRECTORIES :: "(string \<times> string) list" where
  "LIBRARY_DIRECTORIES =
    [(''Windows'', ''lib''), (''Linux'', ''lib''), (''Macos'', ''Maya.app/Conents/MacOS'')]"

definition DEFAULT_MAYA_PATHS :: "(string \<times> string) list" where
  "DEFAULT_MAYA_PATHS =
    [(''Windows'', ''C:/Program Files/Autodesk/Maya{}''),
     (''Linux'', ''/usr/autodesk/maya{}''),
     (''Macos'', ''/Applications/Autodesk/maya{}'')]"

subsection \<open>Recipe state\<close>

text \<open>
  The fields of a recipe object that the methods read or write. A setting is held as the
  string that \<^verbatim>\<open>str(self.settings.x)\<close> gives; an option is \<open>None\<close> while it is unset, which
  is what the recipes test with \<^verbatim>\<open>== None\<close>.
\<close>

record ConanFile =
  settings_os :: string
  settings_compiler :: string
  settings_compiler_version :: string
  options_maya_version :: "string option"

record MayaSDKConan = ConanFile +
  options_maya_path :: "string option"
  build_folder :: string

record ThinkboxMYLibraryConan = ConanFile +
  options_mayasdk_maya_version :: "string option"
  source_folder :: string
  package_folder :: string

text \<open>\<^verbatim>\<open>str(x)\<close> of an option value: the text \<^verbatim>\<open>None\<close> when it is unset.\<close>

fun str :: "string option \<Rightarrow> string" where
  "str None = ''None''"
| "str (Some s) = s"

subsection \<open>validate\<close>

definition MayaSDKConan_validate :: "MayaSDKConan \<Rightarrow> error + unit" where
  "MayaSDKConan_validate self =
    (let compiler = settings_compiler self;
         compiler_version = settings_compiler_version self;
         compiler_tuple = (compiler, compiler_version);
         maya_version = str (options_maya_version self)
     in case map_of mayasdk_VALID_MAYA_CONFIGS compiler_tuple of
          None \<Rightarrow> Inl KeyError
        | Some versions \<Rightarrow>
            if maya_version \<notin> versions
            then Inl (Exception_not_a_valid_configuration compiler_tuple maya_version)
            else Inr ())"

definition ThinkboxMYLibraryConan_validate :: "ThinkboxMYLibraryConan \<Rightarrow> error + unit" where
  "ThinkboxMYLibraryConan_validate self =
    (if options_maya_version self \<noteq> options_mayasdk_maya_version self
     then Inl Exception_maya_version_must_be_the_same
     else
       let compiler = settings_compiler self;
           compiler_version = settings_compiler_version self;
           compiler_tuple = (compiler, compiler_version);
           maya_version = str (options_maya_version self)
       in case map_of thinkboxmylibrary_VALID_MAYA_CONFIGS compiler_tuple of
            None \<Rightarrow> Inl KeyError
          | Some versions \<Rightarrow>
              if maya_version \<notin> versions
              then Inl (Exception_not_a_valid_configuration compiler_tuple maya_version)
              else Inr ())"

subsection \<open>configure of the shared-library recipe\<close>

definition ThinkboxMYLibraryConan_configure :: "ThinkboxMYLibraryConan \<Rightarrow> ThinkboxMYLibraryConan" where
  "ThinkboxMYLibraryConan_configure self =
    (let self1 = (if options_maya_version self = None
                  then self\<lparr>options_maya_version := Some ''2022''\<rparr> else self)
     in self1\<lparr>options_mayasdk_maya_version := options_maya_version self1\<rparr>)"

subsection \<open>configure of the SDK recipe\<close>

text \<open>
  \<^verbatim>\<open>template.format(args)\<close> for the templates of \<^verbatim>\<open>DEFAULT_MAYA_PATHS\<close>: an automatically
  numbered field \<^verbatim>\<open>{}\<close> takes the next argument (\<open>IndexError\<close> when none is left), a doubled
  brace is a literal brace, a single brace is a \<open>ValueError\<close>. A replacement field with a
  name, an index, a conversion or a format specification occurs in no template of the
  recipes and is not modelled: it is a \<open>ValueError\<close> here.
\<close>

fun format :: "string \<Rightarrow> string list \<Rightarrow> error + string" where
  "format [] args = Inr []"
| "format (c # cs) args =
    (if c = CHR ''{'' then
       (case cs of
          [] \<Rightarrow> Inl ValueError
        | d # r \<Rightarrow>
            if d = CHR ''{'' then map_sum id ((#) (CHR ''{'')) (format r args)
            else if d = CHR ''}'' then
              (case args of
                 [] \<Rightarrow> Inl IndexError
               | a # as \<Rightarrow> map_sum id ((@) a) (format r as))
            else Inl ValueError)
     else if c = CHR ''}'' then
       (case cs of
          [] \<Rightarrow> Inl ValueError
        | d # r \<Rightarrow>
            if d = CHR ''}'' then map_sum id ((#) (CHR ''}'')) (format r args)
            else Inl ValueError)
     else map_sum id ((#) c) (format cs args))"

text \<open>
  \<^verbatim>\<open>MayaSDKConan.configure\<close> assigns to the options in place, so an exception leaves the
  assignments made before it: the result is the exception, if any, with the recipe as it
  is when the method ends.
\<close>

definition MayaSDKConan_configure :: "MayaSDKConan \<Rightarrow> error option \<times> MayaSDKConan" where
  "MayaSDKConan_configure self =
    (let self1 = (if options_maya_version self = None
                  then self\<lparr>options_maya_version := Some ''2022''\<rparr> else self)
     in if options_maya_path self1 = None then
          (case map_of DEFAULT_MAYA_PATHS (settings_os self1) of
             None \<Rightarrow> (Some KeyError, self1)
           | Some template \<Rightarrow>
               (case format template [str (options_maya_version self1)] of
                  Inl e \<Rightarrow> (Some e, self1)
                | Inr p \<Rightarrow> (None, self1\<lparr>options_maya_path := Some p\<rparr>)))
        else (None, self1))"

subsection \<open>Paths and the file tree\<close>

text \<open>
  \<^verbatim>\<open>os.path.join\<close> and \<^verbatim>\<open>os.path.basename\<close> are those of \<^verbatim>\<open>posixpath\<close>, on strings;
  a join of three parts is the join of the first two with the third, as \<^verbatim>\<open>posixpath\<close>
  computes it.
\<close>

definition os_path_join :: "string \<Rightarrow> string \<Rightarrow> string" where
  "os_path_join a b =
    (if b \<noteq> [] \<and> hd b = CHR ''/'' then b
     else if a = [] \<or> last a = CHR ''/'' then a @ b
     else a @ CHR ''/'' # b)"

fun split_sep :: "string \<Rightarrow> string list" where
  "split_sep [] = [[]]"
| "split_sep (c # cs) =
    (if c = CHR ''/'' then [] # split_sep cs
     else (case split_sep cs of [] \<Rightarrow> [[c]] | w # ws \<Rightarrow> (c # w) # ws))"

definition os_path_basename :: "string \<Rightarrow> string" where
  "os_path_basename p = last (split_sep p)"

text \<open>
  The file tree maps a resolved path, the list of the names from the root down, to what
  is there: a regular file with its text, or a directory. In a well-formed tree
  everything above an entry is a directory.
\<close>

type_synonym path = "string list"

datatype node = File string | Dir

type_synonym filesystem = "path \<Rightarrow> node option"

definition wf_filesystem :: "filesystem \<Rightarrow> bool" where
  "wf_filesystem fs \<longleftrightarrow> (\<forall>p q. fs p \<noteq> None \<and> strict_prefix q p \<longrightarrow> fs q = Some Dir)"

fun is_file :: "node option \<Rightarrow> bool" where
  "is_file (Some (File c)) = True"
| "is_file n = False"

text \<open>
  Every call that takes a path string has the operating system resolve it in the file
  tree as it is at that moment. The string is split at the separator and walked from the
  root: an empty component is skipped, a name is appended, and \<^verbatim>\<open>.\<close> and \<^verbatim>\<open>..\<close> need
  the place reached so far to be an existing directory (the root always is), where
  \<^verbatim>\<open>..\<close> steps back to its parent; otherwise the walk fails, as the call then does.
  A relative path is walked from the root; symbolic links and case-insensitive names are
  not modelled.
\<close>

fun walk :: "filesystem \<Rightarrow> path \<Rightarrow> string list \<Rightarrow> error + path" where
  "walk fs acc [] = Inr acc"
| "walk fs acc (c # cs) =
    (if c = [] then walk fs acc cs
     else if c = ''.'' \<or> c = ''..'' then
       (case (if acc = [] then Some Dir else fs acc) of
          None \<Rightarrow> Inl FileNotFoundError
        | Some (File x) \<Rightarrow> Inl NotADirectoryError
        | Some Dir \<Rightarrow> walk fs (if c = ''..'' then butlast acc else acc) cs)
     else walk fs (acc @ [c]) cs)"

definition resolve :: "filesystem \<Rightarrow> string \<Rightarrow> error + path" where
  "resolve fs s = walk fs [] (split_sep s)"

definition os_path_exists :: "filesystem \<Rightarrow> string \<Rightarrow> bool" where
  "os_path_exists fs p = (case resolve fs p of Inl e \<Rightarrow> False | Inr q \<Rightarrow> fs q \<noteq> None)"

definition os_path_isdir :: "filesystem \<Rightarrow> string \<Rightarrow> bool" where
  "os_path_isdir fs p = (case resolve fs p of Inl e \<Rightarrow> False | Inr q \<Rightarrow> fs q = Some Dir)"

text \<open>\<^verbatim>\<open>shutil.rmtree(p)\<close>: \<open>p\<close> must be a directory; it goes with all below it.\<close>

definition shutil_rmtree :: "filesystem \<Rightarrow> string \<Rightarrow> error + filesystem" where
  "shutil_rmtree fs p =
    (case resolve fs p of
       Inl e \<Rightarrow> Inl e
     | Inr d \<Rightarrow>
         (case fs d of
            None \<Rightarrow> Inl FileNotFoundError
          | Some (File c) \<Rightarrow> Inl NotADirectoryError
          | Some Dir \<Rightarrow> Inr (\<lambda>q. if prefix d q then None else fs q)))"

text \<open>
  \<^verbatim>\<open>os.makedirs(p, exist_ok)\<close>: creates \<open>p\<close> and every missing directory above it; an
  existing \<open>p\<close> is an error unless it is a directory and \<open>exist_ok\<close> holds; a regular file
  above \<open>p\<close> is an error. For a path that the walk cannot resolve (it leads through a
  missing directory by \<^verbatim>\<open>.\<close> or \<^verbatim>\<open>..\<close>) the model gives the walk's error; Python's own
  descent through such a spelling is not modelled.
\<close>

definition os_makedirs :: "filesystem \<Rightarrow> string \<Rightarrow> bool \<Rightarrow> error + filesystem" where
  "os_makedirs fs p exist_ok =
    (case resolve fs p of
       Inl e \<Rightarrow> Inl e
     | Inr d \<Rightarrow>
         (case fs d of
            Some Dir \<Rightarrow> if exist_ok then Inr fs else Inl FileExistsError
          | Some (File c) \<Rightarrow> Inl FileExistsError
          | None \<Rightarrow>
              if list_ex (\<lambda>q. is_file (fs q)) (prefixes d) then Inl NotADirectoryError
              else Inr (\<lambda>q. if prefix q d \<and> fs q = None then Some Dir else fs q)))"

text \<open>
  \<^verbatim>\<open>shutil.copytree(src, dst)\<close>: \<open>src\<close> must be a directory and \<open>dst\<close> must not exist;
  \<open>dst\<close> is created with \<^verbatim>\<open>os.makedirs\<close> and receives a copy of everything below \<open>src\<close>.
  Copying a directory into itself does not end well in Python (it descends into its own
  copy until a path is too long); the model gives \<open>ShutilError\<close> for it.
\<close>

definition shutil_copytree :: "filesystem \<Rightarrow> string \<Rightarrow> string \<Rightarrow> error + filesystem" where
  "shutil_copytree fs src dst =
    (case resolve fs src of
       Inl e \<Rightarrow> Inl e
     | Inr s \<Rightarrow>
         (case fs s of
            None \<Rightarrow> Inl FileNotFoundError
          | Some (File c) \<Rightarrow> Inl NotADirectoryError
          | Some Dir \<Rightarrow>
              (case os_makedirs fs dst False of
                 Inl e \<Rightarrow> Inl e
               | Inr fs1 \<Rightarrow>
                   (case resolve fs dst of
                      Inl e \<Rightarrow> Inl e
                    | Inr d \<Rightarrow>
                        if prefix s d then Inl ShutilError
                        else Inr (\<lambda>q. if strict_prefix d q then fs (s @ drop (length d) q)
                                       else fs1 q)))))"

text \<open>
  Text files: \<^verbatim>\<open>open(p, 'r')\<close> with \<^verbatim>\<open>readlines()\<close>, and \<^verbatim>\<open>open(p, 'w')\<close> with
  \<^verbatim>\<open>writelines(lines)\<close>. The text of a file is its decoded text with every line ending
  read as the newline character, as Python's text mode presents it.
\<close>

definition open_r :: "filesystem \<Rightarrow> string \<Rightarrow> error + string" where
  "open_r fs p =
    (case resolve fs p of
       Inl e \<Rightarrow> Inl e
     | Inr f \<Rightarrow>
         (case fs f of
            None \<Rightarrow> Inl FileNotFoundError
          | Some Dir \<Rightarrow> Inl IsADirectoryError
          | Some (File c) \<Rightarrow> Inr c))"

fun readlines :: "string \<Rightarrow> string list" where
  "readlines [] = []"
| "readlines (c # cs) =
    (if c = CHR 0x0A then [c] # readlines cs
     else (case readlines cs of [] \<Rightarrow> [[c]] | l # ls \<Rightarrow> (c # l) # ls))"

definition open_w :: "filesystem \<Rightarrow> string \<Rightarrow> error + filesystem" where
  "open_w fs p =
    (case resolve fs p of
       Inl e \<Rightarrow> Inl e
     | Inr f \<Rightarrow>
         (case fs f of
            Some Dir \<Rightarrow> Inl IsADirectoryError
          | _ \<Rightarrow>
              (case fs (butlast f) of
                 None \<Rightarrow> Inl FileNotFoundError
               | Some (File c') \<Rightarrow> Inl NotADirectoryError
               | Some Dir \<Rightarrow> Inr (fs(f \<mapsto> File [])))))"

definition writelines :: "filesystem \<Rightarrow> string \<Rightarrow> string list \<Rightarrow> filesystem" where
  "writelines fs p lines =
    (case resolve fs p of
       Inl e \<Rightarrow> fs
     | Inr f \<Rightarrow>
         (case fs f of
            Some (File c) \<Rightarrow> fs(f \<mapsto> File (c @ concat lines))
          | _ \<Rightarrow> fs))"

text \<open>
  \<^verbatim>\<open>shutil.copy(src, dst)\<close>: when \<open>dst\<close> is a directory the target is the file of the
  source's base name in it. Source and target being the same existing file is
  \<open>SameFileError\<close>; then the source is opened for reading and the target for writing.
\<close>

definition samefile :: "filesystem \<Rightarrow> string \<Rightarrow> string \<Rightarrow> bool" where
  "samefile fs src dst =
    (case resolve fs src of
       Inl e \<Rightarrow> False
     | Inr s \<Rightarrow>
         (case resolve fs dst of
            Inl e \<Rightarrow> False
          | Inr d \<Rightarrow> fs s \<noteq> None \<and> s = d))"

definition shutil_copy :: "filesystem \<Rightarrow> string \<Rightarrow> string \<Rightarrow> error + filesystem" where
  "shutil_copy fs src dst =
    (let target = (if os_path_isdir fs dst then os_path_join dst (os_path_basename src) else dst)
     in if samefile fs src target then Inl SameFileError
        else
          (case open_r fs src of
             Inl e \<Rightarrow> Inl e
           | Inr c \<Rightarrow>
               (case open_w fs target of
                  Inl e \<Rightarrow> Inl e
                | Inr fs1 \<Rightarrow> Inr (writelines fs1 target [c]))))"

subsection \<open>build of the SDK recipe\<close>

text \<open>The first half of \<^verbatim>\<open>MayaSDKConan.build\<close>, under its comment \<^verbatim>\<open># Copy Headers\<close>.\<close>

definition MayaSDKConan_build_copy_headers :: "MayaSDKConan \<Rightarrow> filesystem \<Rightarrow> error + filesystem" where
  "MayaSDKConan_build_copy_headers self fs =
    (let build_include_dir = os_path_join (build_folder self) ''include'' in
     case (if os_path_exists fs build_include_dir then shutil_rmtree fs build_include_dir
           else Inr fs) of
       Inl e \<Rightarrow> Inl e
     | Inr fs1 \<Rightarrow>
         (case os_makedirs fs1 build_include_dir False of
            Inl e \<Rightarrow> Inl e
          | Inr fs2 \<Rightarrow>
              shutil_copytree fs2
                (os_path_join (os_path_join (str (options_maya_path self)) ''include'') ''maya'')
                (os_path_join build_include_dir ''maya'')))"

text \<open>The source path of one library: the first argument of \<^verbatim>\<open>shutil.copy\<close> in the loop.\<close>

definition MayaSDKConan_build_library_path :: "MayaSDKConan \<Rightarrow> string \<Rightarrow> error + string" where
  "MayaSDKConan_build_library_path self lib =
    (let os_setting = settings_os self in
     case map_of LIBRARY_DIRECTORIES os_setting of
       None \<Rightarrow> Inl KeyError
     | Some directory \<Rightarrow>
         (case map_of LIBRARY_PREFIX os_setting of
            None \<Rightarrow> Inl KeyError
          | Some pre \<Rightarrow>
              (case map_of LIBRARY_EXTENSIONS os_setting of
                 None \<Rightarrow> Inl KeyError
               | Some extension \<Rightarrow>
                   Inr (os_path_join (os_path_join (str (options_maya_path self)) directory)
                          (pre @ lib @ ''.'' @ extension)))))"

text \<open>The loop \<^verbatim>\<open>for lib in MAYA_SDK_LIBS\<close>: the first exception ends it.\<close>

fun MayaSDKConan_build_copy_loop ::
    "MayaSDKConan \<Rightarrow> string \<Rightarrow> string list \<Rightarrow> filesystem \<Rightarrow> error + filesystem" where
  "MayaSDKConan_build_copy_loop self build_library_dir [] fs = Inr fs"
| "MayaSDKConan_build_copy_loop self build_library_dir (lib # libs) fs =
    (case MayaSDKConan_build_library_path self lib of
       Inl e \<Rightarrow> Inl e
     | Inr src \<Rightarrow>
         (case shutil_copy fs src build_library_dir of
            Inl e \<Rightarrow> Inl e
          | Inr fs1 \<Rightarrow> MayaSDKConan_build_copy_loop self build_library_dir libs fs1))"

text \<open>The second half of \<^verbatim>\<open>MayaSDKConan.build\<close>, under its comment \<^verbatim>\<open># Copy Libraries\<close>.\<close>

definition MayaSDKConan_build_copy_libraries :: "MayaSDKConan \<Rightarrow> filesystem \<Rightarrow> error + filesystem" where
  "MayaSDKConan_build_copy_libraries self fs =
    (let build_library_dir = os_path_join (build_folder self) ''lib'' in
     case (if os_path_exists fs build_library_dir then shutil_rmtree fs build_library_dir
           else Inr fs) of
       Inl e \<Rightarrow> Inl e
     | Inr fs1 \<Rightarrow>
         (case os_makedirs fs1 build_library_dir False of
            Inl e \<Rightarrow> Inl e
          | Inr fs2 \<Rightarrow> MayaSDKConan_build_copy_loop self build_library_dir MAYA_SDK_LIBS fs2))"

definition MayaSDKConan_build :: "MayaSDKConan \<Rightarrow> filesystem \<Rightarrow> error + filesystem" where
  "MayaSDKConan_build self fs =
    (case MayaSDKConan_build_copy_headers self fs of
       Inl e \<Rightarrow> Inl e
     | Inr fs1 \<Rightarrow> MayaSDKConan_build_copy_libraries self fs1)"

subsection \<open>package of the shared-library recipe\<close>

text \<open>
  \<^verbatim>\<open>cmake.install()\<close> runs the external build tool, which is no part of the repository:
  it is the parameter \<open>cmake_install\<close>, any function that fails or changes the file tree.
\<close>

definition ThinkboxMYLibraryConan_package ::
    "(filesystem \<Rightarrow> error + filesystem) \<Rightarrow> ThinkboxMYLibraryConan \<Rightarrow> filesystem
      \<Rightarrow> error + filesystem" where
  "ThinkboxMYLibraryConan_package cmake_install self fs =
    (case cmake_install fs of
       Inl e \<Rightarrow> Inl e
     | Inr fs1 \<Rightarrow>
         (case open_r fs1 (os_path_join (source_folder self) ''NOTICE.txt'') of
            Inl e \<Rightarrow> Inl e
          | Inr notice_file \<Rightarrow>
              let notice_contents = readlines notice_file in
              (case open_r fs1 (os_path_join (source_folder self) ''LICENSE.txt'') of
                 Inl e \<Rightarrow> Inl e
               | Inr license_file \<Rightarrow>
                   let license_contents = readlines license_file in
                   (case os_makedirs fs1 (os_path_join (package_folder self) ''licenses'') True of
                      Inl e \<Rightarrow> Inl e
                    | Inr fs2 \<Rightarrow>
                        let cat_license_file =
                          os_path_join (os_path_join (package_folder self) ''licenses'') ''LICENSE''
                        in
                        (case open_w fs2 cat_license_file of
                           Inl e \<Rightarrow> Inl e
                         | Inr fs3 \<Rightarrow>
                             Inr (writelines (writelines fs3 cat_license_file notice_contents)
                                    cat_license_file license_contents))))))"

section \<open>Properties\<close>

subsection \<open>Facts about the tables, format and configure\<close>

lemma dom_mayasdk_VALID_MAYA_CONFIGS:
  "dom (map_of mayasdk_VALID_MAYA_CONFIGS) =
     {(''Visual Studio'', ''16''), (''gcc'', ''7''), (''gcc'', ''9''), (''apple-clang'', ''10.0'')}"
  unfolding mayasdk_VALID_MAYA_CONFIGS_def by (simp add: dom_map_of_conv_image_fst)

lemma dom_thinkboxmylibrary_VALID_MAYA_CONFIGS:
  "dom (map_of thinkboxmylibrary_VALID_MAYA_CONFIGS) =
     {(''Visual Studio'', ''16''), (''gcc'', ''7''), (''gcc'', ''9''), (''apple-clang'', ''10.0'')}"
  unfolding thinkboxmylibrary_VALID_MAYA_CONFIGS_def by (simp add: dom_map_of_conv_image_fst)

text \<open>
  Every compiler and version that \<^verbatim>\<open>SETTINGS['compiler']\<close> lets a profile select is a key
  of the compatibility matrix, and every key can be selected.
\<close>

lemma SETTINGS_compiler_are_keys:
  "set (concat (map (\<lambda>(compiler, versions). map (Pair compiler) versions) SETTINGS_compiler))
     = dom (map_of mayasdk_VALID_MAYA_CONFIGS)"
  unfolding SETTINGS_compiler_def dom_mayasdk_VALID_MAYA_CONFIGS by auto

lemma format_plain_prefix:
  "CHR ''{'' \<notin> set pre \<Longrightarrow> CHR ''}'' \<notin> set pre \<Longrightarrow>
   format (pre @ s) args = map_sum id ((@) pre) (format s args)"
proof (induction pre)
  case Nil
  show ?case by (cases "format s args") simp_all
next
  case (Cons c pre)
  then show ?case by (cases "format s args") auto
qed

lemma format_one_field:
  assumes "CHR ''{'' \<notin> set pre" and "CHR ''}'' \<notin> set pre"
  shows "format (pre @ ''{}'') [v] = Inr (pre @ v)"
  using assms by (simp add: format_plain_prefix)

lemma DEFAULT_MAYA_PATHS_templates:
  "os_setting \<in> set SETTINGS_os \<Longrightarrow>
   \<exists>pre. map_of DEFAULT_MAYA_PATHS os_setting = Some (pre @ ''{}'') \<and>
         CHR ''{'' \<notin> set pre \<and> CHR ''}'' \<notin> set pre"
  unfolding SETTINGS_os_def DEFAULT_MAYA_PATHS_def
  by (elim disjE insertE emptyE | simp)+

lemma configure_when_set:
  "options_maya_version self = Some v \<Longrightarrow> options_maya_path self = Some p \<Longrightarrow>
   MayaSDKConan_configure self = (None, self)"
  unfolding MayaSDKConan_configure_def by simp

lemma configure_version_set_path_unset:
  "options_maya_version self = Some v \<Longrightarrow> options_maya_path self = None \<Longrightarrow>
   MayaSDKConan_configure self =
     (case map_of DEFAULT_MAYA_PATHS (settings_os self) of
        None \<Rightarrow> (Some KeyError, self)
      | Some template \<Rightarrow>
          (case format template [v] of
             Inl e \<Rightarrow> (Some e, self)
           | Inr p \<Rightarrow> (None, self\<lparr>options_maya_path := Some p\<rparr>)))"
  unfolding MayaSDKConan_configure_def by (simp split: option.split)

lemma configure_version_unset:
  "options_maya_version self = None \<Longrightarrow>
   MayaSDKConan_configure self =
     MayaSDKConan_configure (self\<lparr>options_maya_version := Some ''2022''\<rparr>)"
  unfolding MayaSDKConan_configure_def by simp

lemma configure_idem_version_set:
  assumes v: "options_maya_version self = Some v"
  shows "MayaSDKConan_configure (snd (MayaSDKConan_configure self)) = MayaSDKConan_configure self"
proof (cases "options_maya_path self")
  case (Some p)
  with v show ?thesis by (simp add: configure_when_set)
next
  case None
  note unset = this
  show ?thesis
  proof (cases "map_of DEFAULT_MAYA_PATHS (settings_os self)")
    case None
    with v unset show ?thesis by (simp add: configure_version_set_path_unset)
  next
    case (Some template)
    note tmpl = this
    show ?thesis
    proof (cases "format template [v]")
      case (Inl e)
      with v unset tmpl show ?thesis by (simp add: configure_version_set_path_unset)
    next
      case (Inr p)
      with v unset tmpl have "MayaSDKConan_configure self = (None, self\<lparr>options_maya_path := Some p\<rparr>)"
        by (simp add: configure_version_set_path_unset)
      moreover have "MayaSDKConan_configure (self\<lparr>options_maya_path := Some p\<rparr>)
          = (None, self\<lparr>options_maya_path := Some p\<rparr>)"
        using v by (intro configure_when_set) simp_all
      ultimately show ?thesis by simp
    qed
  qed
qed

subsection \<open>validate\<close>

text \<open>
  Claim C1, as amended. For a compiler and compiler version that are a key of the
  compatibility matrix, \<^verbatim>\<open>MayaSDKConan.validate\<close> returns when the Maya version is in the
  key's set and raises the recipe's own \<^verbatim>\<open>Exception\<close> (the configuration error) when it
  is not. For a pair that is no key it raises \<open>KeyError\<close>, which is not the configuration
  error.
\<close>

theorem MayaSDKConan_validate_matrix:
  "(\<forall>versions.
      map_of mayasdk_VALID_MAYA_CONFIGS (settings_compiler self, settings_compiler_version self)
        = Some versions \<longrightarrow>
      (str (options_maya_version self) \<in> versions \<longrightarrow> MayaSDKConan_validate self = Inr ()) \<and>
      (str (options_maya_version self) \<notin> versions \<longrightarrow>
         (\<exists>e. MayaSDKConan_validate self = Inl e \<and> is_configuration_error e))) \<and>
   (map_of mayasdk_VALID_MAYA_CONFIGS (settings_compiler self, settings_compiler_version self)
      = None \<longrightarrow> MayaSDKConan_validate self = Inl KeyError \<and> \<not> is_configuration_error KeyError)"
  unfolding MayaSDKConan_validate_def by (simp add: Let_def)

text \<open>
  The three cases at \<^verbatim>\<open>gcc 9\<close> with Maya 2023, \<^verbatim>\<open>gcc 9\<close> with Maya 2024, and
  \<^verbatim>\<open>clang 12\<close>.
\<close>

theorem MayaSDKConan_validate_matrix_witness:
  "MayaSDKConan_validate
     \<lparr>settings_os = ''Linux'', settings_compiler = ''gcc'', settings_compiler_version = ''9'',
      options_maya_version = Some ''2023'', options_maya_path = None, build_folder = ''/b''\<rparr>
     = Inr () \<and>
   (\<exists>e. MayaSDKConan_validate
     \<lparr>settings_os = ''Linux'', settings_compiler = ''gcc'', settings_compiler_version = ''9'',
      options_maya_version = Some ''2024'', options_maya_path = None, build_folder = ''/b''\<rparr>
     = Inl e \<and> is_configuration_error e) \<and>
   MayaSDKConan_validate
     \<lparr>settings_os = ''Linux'', settings_compiler = ''clang'', settings_compiler_version = ''12'',
      options_maya_version = Some ''2023'', options_maya_path = None, build_folder = ''/b''\<rparr>
     = Inl KeyError"
  using MayaSDKConan_validate_matrix
    [of "\<lparr>settings_os = ''Linux'', settings_compiler = ''gcc'', settings_compiler_version = ''9'',
      options_maya_version = Some ''2023'', options_maya_path = None, build_folder = ''/b''\<rparr>"]
    MayaSDKConan_validate_matrix
    [of "\<lparr>settings_os = ''Linux'', settings_compiler = ''gcc'', settings_compiler_version = ''9'',
      options_maya_version = Some ''2024'', options_maya_path = None, build_folder = ''/b''\<rparr>"]
    MayaSDKConan_validate_matrix
    [of "\<lparr>settings_os = ''Linux'', settings_compiler = ''clang'', settings_compiler_version = ''12'',
      options_maya_version = Some ''2023'', options_maya_path = None, build_folder = ''/b''\<rparr>"]
  by (simp add: mayasdk_VALID_MAYA_CONFIGS_def)

text \<open>
  Claim C1 as it is written fails: \<^verbatim>\<open>clang 12\<close> is no key of the matrix, and validate
  does not fail with a configuration error there (the subscript raises \<open>KeyError\<close>).
\<close>

theorem MayaSDKConan_validate_unknown_compiler_counterexample:
  "(''clang'', ''12'') \<notin> dom (map_of mayasdk_VALID_MAYA_CONFIGS) \<and>
   MayaSDKConan_validate
     \<lparr>settings_os = ''Linux'', settings_compiler = ''clang'', settings_compiler_version = ''12'',
      options_maya_version = Some ''2022'', options_maya_path = None, build_folder = ''/b''\<rparr>
     = Inl KeyError \<and>
   \<not> is_configuration_error KeyError"
  by (simp add: dom_mayasdk_VALID_MAYA_CONFIGS MayaSDKConan_validate_def
      mayasdk_VALID_MAYA_CONFIGS_def)

text \<open>
  Claim C2, as amended. For a compiler and compiler version that are no key of the
  matrix, \<^verbatim>\<open>MayaSDKConan.validate\<close> raises \<open>KeyError\<close>, and so does
  \<^verbatim>\<open>ThinkboxMYLibraryConan.validate\<close> when its two \<^verbatim>\<open>maya_version\<close> options are
  equal; when they differ it raises its first \<^verbatim>\<open>Exception\<close> before it reaches the
  subscript. \<open>KeyError\<close> is not the configuration error.
\<close>

theorem validate_unknown_compiler:
  "((settings_compiler sdk, settings_compiler_version sdk) \<notin> dom (map_of mayasdk_VALID_MAYA_CONFIGS)
      \<longrightarrow> MayaSDKConan_validate sdk = Inl KeyError) \<and>
   ((settings_compiler lib, settings_compiler_version lib)
        \<notin> dom (map_of thinkboxmylibrary_VALID_MAYA_CONFIGS) \<longrightarrow>
      (options_maya_version lib = options_mayasdk_maya_version lib \<longrightarrow>
         ThinkboxMYLibraryConan_validate lib = Inl KeyError) \<and>
      (options_maya_version lib \<noteq> options_mayasdk_maya_version lib \<longrightarrow>
         ThinkboxMYLibraryConan_validate lib = Inl Exception_maya_version_must_be_the_same)) \<and>
   \<not> is_configuration_error KeyError"
  unfolding MayaSDKConan_validate_def ThinkboxMYLibraryConan_validate_def
  by (auto simp: Let_def domIff)

text \<open>
  At \<^verbatim>\<open>clang 12\<close>: the SDK recipe, the library recipe with equal options, and the
  library recipe with options 2022 and 2023.
\<close>

theorem validate_unknown_compiler_witness:
  "MayaSDKConan_validate
     \<lparr>settings_os = ''Linux'', settings_compiler = ''clang'', settings_compiler_version = ''12'',
      options_maya_version = Some ''2022'', options_maya_path = None, build_folder = ''/b''\<rparr>
     = Inl KeyError \<and>
   ThinkboxMYLibraryConan_validate
     \<lparr>settings_os = ''Linux'', settings_compiler = ''clang'', settings_compiler_version = ''12'',
      options_maya_version = Some ''2022'', options_mayasdk_maya_version = Some ''2022'',
      source_folder = ''/s'', package_folder = ''/p''\<rparr>
     = Inl KeyError \<and>
   ThinkboxMYLibraryConan_validate
     \<lparr>settings_os = ''Linux'', settings_compiler = ''clang'', settings_compiler_version = ''12'',
      options_maya_version = Some ''2022'', options_mayasdk_maya_version = Some ''2023'',
      source_folder = ''/s'', package_folder = ''/p''\<rparr>
     = Inl Exception_maya_version_must_be_the_same"
  using validate_unknown_compiler
    [of "\<lparr>settings_os = ''Linux'', settings_compiler = ''clang'', settings_compiler_version = ''12'',
      options_maya_version = Some ''2022'', options_maya_path = None, build_folder = ''/b''\<rparr>"
       "\<lparr>settings_os = ''Linux'', settings_compiler = ''clang'', settings_compiler_version = ''12'',
      options_maya_version = Some ''2022'', options_mayasdk_maya_version = Some ''2022'',
      source_folder = ''/s'', package_folder = ''/p''\<rparr>"]
    validate_unknown_compiler
    [of "\<lparr>settings_os = ''Linux'', settings_compiler = ''clang'', settings_compiler_version = ''12'',
      options_maya_version = Some ''2022'', options_maya_path = None, build_folder = ''/b''\<rparr>"
       "\<lparr>settings_os = ''Linux'', settings_compiler = ''clang'', settings_compiler_version = ''12'',
      options_maya_version = Some ''2022'', options_mayasdk_maya_version = Some ''2023'',
      source_folder = ''/s'', package_folder = ''/p''\<rparr>"]
  by (simp add: dom_mayasdk_VALID_MAYA_CONFIGS dom_thinkboxmylibrary_VALID_MAYA_CONFIGS)

text \<open>
  Claim C2 as it is written fails for the library recipe: at \<^verbatim>\<open>clang 12\<close>, which is
  no key, with options 2022 and 2023 the exception is not \<open>KeyError\<close>.
\<close>

theorem ThinkboxMYLibraryConan_validate_unknown_compiler_counterexample:
  "(''clang'', ''12'') \<notin> dom (map_of thinkboxmylibrary_VALID_MAYA_CONFIGS) \<and>
   ThinkboxMYLibraryConan_validate
     \<lparr>settings_os = ''Linux'', settings_compiler = ''clang'', settings_compiler_version = ''12'',
      options_maya_version = Some ''2022'', options_mayasdk_maya_version = Some ''2023'',
      source_folder = ''/s'', package_folder = ''/p''\<rparr>
     \<noteq> Inl KeyError"
  by (simp add: dom_thinkboxmylibrary_VALID_MAYA_CONFIGS ThinkboxMYLibraryConan_validate_def)

text \<open>
  Claim C8. The two modules declare the same compatibility matrix, and for the same
  compiler, compiler version and Maya version the two validate methods give the same
  result, once the library recipe's own check of its two options has passed.
\<close>

theorem VALID_MAYA_CONFIGS_identical:
  "mayasdk_VALID_MAYA_CONFIGS = thinkboxmylibrary_VALID_MAYA_CONFIGS \<and>
   (\<forall>sdk lib.
      settings_compiler sdk = settings_compiler lib \<and>
      settings_compiler_version sdk = settings_compiler_version lib \<and>
      options_maya_version sdk = options_maya_version lib \<and>
      options_mayasdk_maya_version lib = options_maya_version lib \<longrightarrow>
      MayaSDKConan_validate sdk = ThinkboxMYLibraryConan_validate lib)"
  unfolding MayaSDKConan_validate_def ThinkboxMYLibraryConan_validate_def
    mayasdk_VALID_MAYA_CONFIGS_def thinkboxmylibrary_VALID_MAYA_CONFIGS_def
  by (simp add: Let_def)

text \<open>
  At \<^verbatim>\<open>Visual Studio 16\<close> with Maya 2021 both recipes give the same result.
\<close>

theorem VALID_MAYA_CONFIGS_identical_witness:
  "MayaSDKConan_validate
     \<lparr>settings_os = ''Windows'', settings_compiler = ''Visual Studio'',
      settings_compiler_version = ''16'', options_maya_version = Some ''2021'',
      options_maya_path = None, build_folder = ''/b''\<rparr>
   = ThinkboxMYLibraryConan_validate
     \<lparr>settings_os = ''Linux'', settings_compiler = ''Visual Studio'',
      settings_compiler_version = ''16'', options_maya_version = Some ''2021'',
      options_mayasdk_maya_version = Some ''2021'', source_folder = ''/s'',
      package_folder = ''/p''\<rparr>"
proof -
  have "\<forall>sdk lib.
      settings_compiler sdk = settings_compiler lib \<and>
      settings_compiler_version sdk = settings_compiler_version lib \<and>
      options_maya_version sdk = options_maya_version lib \<and>
      options_mayasdk_maya_version lib = options_maya_version lib \<longrightarrow>
      MayaSDKConan_validate sdk = ThinkboxMYLibraryConan_validate lib"
    using VALID_MAYA_CONFIGS_identical by (rule conjunct2)
  then show ?thesis by simp
qed

subsection \<open>configure\<close>

text \<open>
  Claim C3. \<^verbatim>\<open>ThinkboxMYLibraryConan.configure\<close> forces the option of \<^verbatim>\<open>mayasdk\<close> to
  match the recipe's own: whatever version \<open>v\<close> the recipe's option holds as configure
  runs, afterwards the recipe's option and that of \<^verbatim>\<open>mayasdk\<close> both hold \<open>v\<close>, whatever
  the dependency's option held before, and with the recipe's option unset both hold the
  default 2022; so the two are equal after every configure, and with the recipe's option
  set to 2023 both are 2023. When the two options differ as
  \<^verbatim>\<open>ThinkboxMYLibraryConan.validate\<close> runs, it raises the recipe's \<^verbatim>\<open>Exception\<close>, a
  configuration error.
\<close>

theorem ThinkboxMYLibraryConan_configure_propagates:
  "(\<forall>v. options_maya_version self = Some v \<longrightarrow>
      options_maya_version (ThinkboxMYLibraryConan_configure self) = Some v \<and>
      options_mayasdk_maya_version (ThinkboxMYLibraryConan_configure self) = Some v) \<and>
   (options_maya_version self = None \<longrightarrow>
      options_maya_version (ThinkboxMYLibraryConan_configure self) = Some ''2022'' \<and>
      options_mayasdk_maya_version (ThinkboxMYLibraryConan_configure self) = Some ''2022'') \<and>
   options_mayasdk_maya_version (ThinkboxMYLibraryConan_configure self)
     = options_maya_version (ThinkboxMYLibraryConan_configure self) \<and>
   (options_maya_version self = Some ''2023'' \<longrightarrow>
      options_maya_version (ThinkboxMYLibraryConan_configure self) = Some ''2023'' \<and>
      options_mayasdk_maya_version (ThinkboxMYLibraryConan_configure self) = Some ''2023'') \<and>
   (options_maya_version self \<noteq> options_mayasdk_maya_version self \<longrightarrow>
      ThinkboxMYLibraryConan_validate self = Inl Exception_maya_version_must_be_the_same \<and>
      is_configuration_error Exception_maya_version_must_be_the_same)"
  unfolding ThinkboxMYLibraryConan_configure_def ThinkboxMYLibraryConan_validate_def
  by (simp add: Let_def)

text \<open>
  With the recipe's option 2023 and the dependency's 2022, configure sets the
  dependency's to 2023 and validate on the unconfigured recipe fails; with the recipe's
  option 2022 and the dependency's 2023, configure sets the dependency's to 2022.
\<close>

theorem ThinkboxMYLibraryConan_configure_propagates_witness:
  "options_mayasdk_maya_version (ThinkboxMYLibraryConan_configure
     \<lparr>settings_os = ''Linux'', settings_compiler = ''gcc'', settings_compiler_version = ''9'',
      options_maya_version = Some ''2023'', options_mayasdk_maya_version = Some ''2022'',
      source_folder = ''/s'', package_folder = ''/p''\<rparr>) = Some ''2023'' \<and>
   options_mayasdk_maya_version (ThinkboxMYLibraryConan_configure
     \<lparr>settings_os = ''Linux'', settings_compiler = ''gcc'', settings_compiler_version = ''9'',
      options_maya_version = Some ''2022'', options_mayasdk_maya_version = Some ''2023'',
      source_folder = ''/s'', package_folder = ''/p''\<rparr>) = Some ''2022'' \<and>
   ThinkboxMYLibraryConan_validate
     \<lparr>settings_os = ''Linux'', settings_compiler = ''gcc'', settings_compiler_version = ''9'',
      options_maya_version = Some ''2023'', options_mayasdk_maya_version = Some ''2022'',
      source_folder = ''/s'', package_folder = ''/p''\<rparr>
     = Inl Exception_maya_version_must_be_the_same"
  using ThinkboxMYLibraryConan_configure_propagates
    [of "\<lparr>settings_os = ''Linux'', settings_compiler = ''gcc'', settings_compiler_version = ''9'',
      options_maya_version = Some ''2023'', options_mayasdk_maya_version = Some ''2022'',
      source_folder = ''/s'', package_folder = ''/p''\<rparr>"]
    ThinkboxMYLibraryConan_configure_propagates
    [of "\<lparr>settings_os = ''Linux'', settings_compiler = ''gcc'', settings_compiler_version = ''9'',
      options_maya_version = Some ''2022'', options_mayasdk_maya_version = Some ''2023'',
      source_folder = ''/s'', package_folder = ''/p''\<rparr>"]
  by simp

text \<open>
  Claim C6. For each operating system of \<^verbatim>\<open>SETTINGS['os']\<close>, when \<^verbatim>\<open>maya_path\<close> is
  unset, \<^verbatim>\<open>MayaSDKConan.configure\<close> returns normally with \<^verbatim>\<open>maya_path\<close> set to the
  template of that system in \<^verbatim>\<open>DEFAULT_MAYA_PATHS\<close>, its \<^verbatim>\<open>{}\<close> replaced by the Maya
  version (2022 when that was unset). For Linux and 2023 the path is
  \<^verbatim>\<open>/usr/autodesk/maya2023\<close>.
\<close>

theorem MayaSDKConan_configure_default_path:
  "(settings_os self \<in> set SETTINGS_os \<and> options_maya_path self = None \<longrightarrow>
      (\<exists>pre. map_of DEFAULT_MAYA_PATHS (settings_os self) = Some (pre @ ''{}'') \<and>
         CHR ''{'' \<notin> set pre \<and> CHR ''}'' \<notin> set pre \<and>
         MayaSDKConan_configure self =
           (None, self\<lparr>options_maya_version :=
                           Some (case options_maya_version self of None \<Rightarrow> ''2022'' | Some v \<Rightarrow> v),
                         options_maya_path :=
                           Some (pre @ (case options_maya_version self of
                                          None \<Rightarrow> ''2022'' | Some v \<Rightarrow> v))\<rparr>))) \<and>
   (settings_os self = ''Linux'' \<and> options_maya_version self = Some ''2023'' \<and>
    options_maya_path self = None \<longrightarrow>
      MayaSDKConan_configure self = (None, self\<lparr>options_maya_path := Some ''/usr/autodesk/maya2023''\<rparr>))"
proof (intro conjI impI)
  assume a: "settings_os self \<in> set SETTINGS_os \<and> options_maya_path self = None"
  then obtain pre where pre: "map_of DEFAULT_MAYA_PATHS (settings_os self) = Some (pre @ ''{}'')"
      "CHR ''{'' \<notin> set pre" "CHR ''}'' \<notin> set pre"
    using DEFAULT_MAYA_PATHS_templates by blast
  have "MayaSDKConan_configure self =
           (None, self\<lparr>options_maya_version :=
                           Some (case options_maya_version self of None \<Rightarrow> ''2022'' | Some v \<Rightarrow> v),
                         options_maya_path :=
                           Some (pre @ (case options_maya_version self of
                                          None \<Rightarrow> ''2022'' | Some v \<Rightarrow> v))\<rparr>)"
  proof (cases "options_maya_version self")
    case None
    with a pre show ?thesis
      by (simp add: configure_version_unset configure_version_set_path_unset format_one_field)
  next
    case (Some v)
    with a pre show ?thesis
      by (simp add: configure_version_set_path_unset format_one_field)
  qed
  with pre show "\<exists>pre. map_of DEFAULT_MAYA_PATHS (settings_os self) = Some (pre @ ''{}'') \<and>
         CHR ''{'' \<notin> set pre \<and> CHR ''}'' \<notin> set pre \<and>
         MayaSDKConan_configure self =
           (None, self\<lparr>options_maya_version :=
                           Some (case options_maya_version self of None \<Rightarrow> ''2022'' | Some v \<Rightarrow> v),
                         options_maya_path :=
                           Some (pre @ (case options_maya_version self of
                                          None \<Rightarrow> ''2022'' | Some v \<Rightarrow> v))\<rparr>)"
    by blast
next
  assume a: "settings_os self = ''Linux'' \<and> options_maya_version self = Some ''2023'' \<and>
    options_maya_path self = None"
  have "format (''/usr/autodesk/maya'' @ ''{}'') [''2023''] = Inr (''/usr/autodesk/maya'' @ ''2023'')"
    by (rule format_one_field) simp_all
  with a show "MayaSDKConan_configure self
      = (None, self\<lparr>options_maya_path := Some ''/usr/autodesk/maya2023''\<rparr>)"
    by (simp add: configure_version_set_path_unset DEFAULT_MAYA_PATHS_def)
qed

text \<open>
  Linux with Maya 2023 and no path.
\<close>

theorem MayaSDKConan_configure_default_path_witness:
  "MayaSDKConan_configure
     \<lparr>settings_os = ''Linux'', settings_compiler = ''gcc'', settings_compiler_version = ''9'',
      options_maya_version = Some ''2023'', options_maya_path = None, build_folder = ''/b''\<rparr>
   = (None,
      \<lparr>settings_os = ''Linux'', settings_compiler = ''gcc'', settings_compiler_version = ''9'',
       options_maya_version = Some ''2023'', options_maya_path = Some ''/usr/autodesk/maya2023'',
       build_folder = ''/b''\<rparr>)"
  using MayaSDKConan_configure_default_path
    [of "\<lparr>settings_os = ''Linux'', settings_compiler = ''gcc'', settings_compiler_version = ''9'',
      options_maya_version = Some ''2023'', options_maya_path = None, build_folder = ''/b''\<rparr>"]
  by simp

text \<open>
  Claim C7. \<^verbatim>\<open>MayaSDKConan.configure\<close> is idempotent: run on the recipe that a first run
  leaves, it ends the same way (normally, or with the same exception) and leaves the same
  recipe, so the same Maya version and path.
\<close>

theorem MayaSDKConan_configure_idempotent:
  "MayaSDKConan_configure (snd (MayaSDKConan_configure self)) = MayaSDKConan_configure self"
proof (cases "options_maya_version self")
  case (Some v)
  then show ?thesis by (rule configure_idem_version_set)
next
  case None
  have "options_maya_version (self\<lparr>options_maya_version := Some ''2022''\<rparr>) = Some ''2022''"
    by simp
  from configure_idem_version_set [OF this] configure_version_unset [OF None]
  show ?thesis by simp
qed

text \<open>
  Claim C10. \<^verbatim>\<open>MayaSDKConan.configure\<close> leaves a Maya version that is set as it is,
  leaves a path that is set as it is, and changes no other field of the recipe.
\<close>

theorem MayaSDKConan_configure_frame:
  "(options_maya_version self \<noteq> None \<longrightarrow>
      options_maya_version (snd (MayaSDKConan_configure self)) = options_maya_version self) \<and>
   (options_maya_path self \<noteq> None \<longrightarrow>
      options_maya_path (snd (MayaSDKConan_configure self)) = options_maya_path self) \<and>
   (snd (MayaSDKConan_configure self))
      \<lparr>options_maya_version := options_maya_version self,
       options_maya_path := options_maya_path self\<rparr> = self"
  unfolding MayaSDKConan_configure_def
  by (simp add: Let_def split: option.splits sum.splits)

text \<open>
  Maya 2023 with the path \<^verbatim>\<open>/opt/maya\<close>, which is not the default of Linux.
\<close>

theorem MayaSDKConan_configure_frame_witness:
  "options_maya_version (snd (MayaSDKConan_configure
     \<lparr>settings_os = ''Linux'', settings_compiler = ''gcc'', settings_compiler_version = ''9'',
      options_maya_version = Some ''2023'', options_maya_path = Some ''/opt/maya'',
      build_folder = ''/b''\<rparr>)) = Some ''2023'' \<and>
   options_maya_path (snd (MayaSDKConan_configure
     \<lparr>settings_os = ''Linux'', settings_compiler = ''gcc'', settings_compiler_version = ''9'',
      options_maya_version = Some ''2023'', options_maya_path = Some ''/opt/maya'',
      build_folder = ''/b''\<rparr>)) = Some ''/opt/maya'' \<and>
   (snd (MayaSDKConan_configure
     \<lparr>settings_os = ''Linux'', settings_compiler = ''gcc'', settings_compiler_version = ''9'',
      options_maya_version = Some ''2023'', options_maya_path = Some ''/opt/maya'',
      build_folder = ''/b''\<rparr>))
     \<lparr>options_maya_version := Some ''2023'', options_maya_path := Some ''/opt/maya''\<rparr>
   = \<lparr>settings_os = ''Linux'', settings_compiler = ''gcc'', settings_compiler_version = ''9'',
      options_maya_version = Some ''2023'', options_maya_path = Some ''/opt/maya'',
      build_folder = ''/b''\<rparr>"
  using MayaSDKConan_configure_frame
    [of "\<lparr>settings_os = ''Linux'', settings_compiler = ''gcc'', settings_compiler_version = ''9'',
      options_maya_version = Some ''2023'', options_maya_path = Some ''/opt/maya'',
      build_folder = ''/b''\<rparr>"]
  by simp

subsection \<open>Platform tables\<close>

text \<open>
  Claim C9. The four tables \<^verbatim>\<open>LIBRARY_EXTENSIONS\<close>, \<^verbatim>\<open>LIBRARY_PREFIX\<close>,
  \<^verbatim>\<open>LIBRARY_DIRECTORIES\<close> and \<^verbatim>\<open>DEFAULT_MAYA_PATHS\<close> have the same keys, one
  entry for each operating system of \<^verbatim>\<open>SETTINGS['os']\<close>.
\<close>

theorem platform_tables_same_keys:
  "dom (map_of LIBRARY_EXTENSIONS) = set SETTINGS_os \<and>
   dom (map_of LIBRARY_PREFIX) = set SETTINGS_os \<and>
   dom (map_of LIBRARY_DIRECTORIES) = set SETTINGS_os \<and>
   dom (map_of DEFAULT_MAYA_PATHS) = set SETTINGS_os \<and>
   map fst LIBRARY_EXTENSIONS = SETTINGS_os \<and>
   map fst LIBRARY_PREFIX = SETTINGS_os \<and>
   map fst LIBRARY_DIRECTORIES = SETTINGS_os \<and>
   map fst DEFAULT_MAYA_PATHS = SETTINGS_os \<and>
   distinct SETTINGS_os"
  unfolding LIBRARY_EXTENSIONS_def LIBRARY_PREFIX_def LIBRARY_DIRECTORIES_def
    DEFAULT_MAYA_PATHS_def SETTINGS_os_def
  by (simp add: dom_map_of_conv_image_fst)

subsection \<open>Paths\<close>

lemma split_sep_not_Nil: "split_sep s \<noteq> []"
  by (induction s) (auto split: list.splits)

lemma split_sep_append_sep:
  "split_sep (a @ CHR ''/'' # b) = split_sep a @ split_sep b"
  by (induction a) (auto simp: split_sep_not_Nil split: list.splits)

lemma split_sep_plain: "CHR ''/'' \<notin> set b \<Longrightarrow> split_sep b = [b]"
  by (induction b) auto

lemma walk_append:
  "walk fs acc (xs @ ys) = (case walk fs acc xs of Inl e \<Rightarrow> Inl e | Inr a \<Rightarrow> walk fs a ys)"
proof (induction xs arbitrary: acc)
  case Nil
  show ?case by simp
next
  case (Cons c xs)
  show ?case
    by (cases "if acc = [] then Some Dir else fs acc" rule: is_file.cases)
       (simp_all add: Cons.IH)
qed

lemma walk_name:
  "c \<noteq> [] \<Longrightarrow> c \<noteq> ''.'' \<Longrightarrow> c \<noteq> ''..'' \<Longrightarrow> walk fs acc [c] = Inr (acc @ [c])"
  by simp

lemma resolve_append_sep:
  "resolve fs (a @ CHR ''/'' # b)
     = (case resolve fs a of Inl e \<Rightarrow> Inl e | Inr p \<Rightarrow> walk fs p (split_sep b))"
  by (simp add: resolve_def split_sep_append_sep walk_append)

lemma resolve_trailing_sep: "resolve fs (a @ [CHR ''/'']) = resolve fs a"
  using resolve_append_sep [of fs a "[]"] by (cases "resolve fs a") simp_all

lemma resolve_Nil: "resolve fs [] = Inr []"
  by (simp add: resolve_def)

lemma resolve_os_path_join:
  assumes "b = [] \<or> hd b \<noteq> CHR ''/''"
  shows "resolve fs (os_path_join a b)
     = (case resolve fs a of Inl e \<Rightarrow> Inl e | Inr p \<Rightarrow> walk fs p (split_sep b))"
proof (cases "a = []")
  case True
  with assms show ?thesis by (auto simp: os_path_join_def resolve_Nil) (simp add: resolve_def)
next
  case False
  note ne = this
  show ?thesis
  proof (cases "last a = CHR ''/''")
    case True
    with ne obtain a' where a': "a = a' @ [CHR ''/'']"
      by (metis append_butlast_last_id)
    have "os_path_join a b = a' @ CHR ''/'' # b"
      using assms a' by (auto simp: os_path_join_def)
    then show ?thesis
      by (cases "resolve fs a'") (simp_all add: resolve_append_sep a' resolve_trailing_sep)
  next
    case False
    with ne assms have "os_path_join a b = a @ CHR ''/'' # b"
      by (auto simp: os_path_join_def)
    then show ?thesis by (simp add: resolve_append_sep)
  qed
qed

lemma resolve_os_path_join_plain:
  assumes "CHR ''/'' \<notin> set b" and "b \<noteq> []" and "b \<noteq> ''.''" and "b \<noteq> ''..''"
  shows "resolve fs (os_path_join a b)
     = (case resolve fs a of Inl e \<Rightarrow> Inl e | Inr p \<Rightarrow> Inr (p @ [b]))"
proof -
  from assms have "b = [] \<or> hd b \<noteq> CHR ''/''"
    by (cases b) auto
  then show ?thesis
    using assms by (cases "resolve fs a") (simp_all add: resolve_os_path_join split_sep_plain)
qed

lemma resolve_join_plainI:
  assumes "CHR ''/'' \<notin> set b" and "b \<noteq> []" and "b \<noteq> ''.''" and "b \<noteq> ''..''"
    and "resolve fs a = Inr p"
  shows "resolve fs (os_path_join a b) = Inr (p @ [b])"
  using assms by (simp add: resolve_os_path_join_plain)

lemma resolve_join_plainD:
  assumes "CHR ''/'' \<notin> set b" and "b \<noteq> []" and "b \<noteq> ''.''" and "b \<noteq> ''..''"
    and "resolve fs (os_path_join a b) = Inr q"
  shows "\<exists>p. resolve fs a = Inr p \<and> q = p @ [b]"
  using assms by (cases "resolve fs a") (auto simp: resolve_os_path_join_plain)

text \<open>A walk that succeeds still succeeds, with the same result, when directories are added.\<close>

lemma walk_more_directories:
  assumes "\<forall>q. fs q = Some Dir \<longrightarrow> fs' q = Some Dir"
  shows "walk fs acc cs = Inr p \<Longrightarrow> walk fs' acc cs = Inr p"
proof (induction cs arbitrary: acc)
  case Nil
  then show ?case by simp
next
  case (Cons c cs)
  show ?case
  proof (cases "c = ''.'' \<or> c = ''..''")
    case False
    with Cons show ?thesis by (cases "c = []") simp_all
  next
    case True
    then have c: "c \<noteq> []" by auto
    show ?thesis
    proof (cases "acc = []")
      case True
      with Cons \<open>c = ''.'' \<or> c = ''..''\<close> c show ?thesis by auto
    next
      case False
      with Cons.prems True c have "fs acc = Some Dir"
        by (cases "fs acc" rule: is_file.cases) (auto split: if_splits)
      with assms have "fs' acc = Some Dir" by blast
      with Cons \<open>fs acc = Some Dir\<close> True c False show ?thesis by auto
    qed
  qed
qed

lemma resolve_more_directories:
  "resolve fs s = Inr p \<Longrightarrow> \<forall>q. fs q = Some Dir \<longrightarrow> fs' q = Some Dir \<Longrightarrow> resolve fs' s = Inr p"
  unfolding resolve_def by (rule walk_more_directories)



subsection \<open>Directories and text files\<close>


lemma concat_readlines: "concat (readlines s) = s"
  by (induction s) (auto split: list.splits)

lemma resolve_fun_upd_file:
  "resolve fs s = Inr p \<Longrightarrow> fs t \<noteq> Some Dir \<Longrightarrow> resolve (fs(t \<mapsto> File c)) s = Inr p"
  by (erule resolve_more_directories) auto

lemma os_makedirs_resolves:
  "os_makedirs fs p exist_ok = Inr fs2 \<Longrightarrow> \<exists>d. resolve fs p = Inr d \<and> fs2 d = Some Dir"
  by (cases "resolve fs p")
     (auto simp: os_makedirs_def split: option.splits node.splits if_splits)

lemma os_makedirs_elsewhere:
  "os_makedirs fs p exist_ok = Inr fs2 \<Longrightarrow> resolve fs p = Inr d \<Longrightarrow> \<not> prefix q d \<Longrightarrow>
   fs2 q = fs q"
  by (auto simp: os_makedirs_def split: option.splits node.splits if_splits)

lemma os_makedirs_directories:
  "os_makedirs fs p exist_ok = Inr fs2 \<Longrightarrow> fs q = Some Dir \<Longrightarrow> fs2 q = Some Dir"
  by (cases "resolve fs p")
     (auto simp: os_makedirs_def split: option.splits node.splits if_splits)

lemma os_makedirs_resolve:
  "os_makedirs fs p exist_ok = Inr fs2 \<Longrightarrow> resolve fs s = Inr r \<Longrightarrow> resolve fs2 s = Inr r"
  by (erule resolve_more_directories) (simp add: os_makedirs_directories)


lemma os_makedirs_succeeds:
  assumes d: "resolve fs p = Inr d"
    and "\<forall>q. prefix q d \<longrightarrow> \<not> is_file (fs q)"
    and "exist_ok \<or> fs d = None"
  shows "\<exists>fs2. os_makedirs fs p exist_ok = Inr fs2"
proof -
  have "\<not> list_ex (\<lambda>q. is_file (fs q)) (prefixes d)"
    using assms(2) by (auto simp: list_ex_iff in_set_prefixes)
  moreover have "\<not> is_file (fs d)"
    using assms(2) by simp
  ultimately show ?thesis
    using assms(3) d
    by (cases "fs d" rule: is_file.cases) (auto simp: os_makedirs_def)
qed

lemma open_w_succeeds:
  "resolve fs p = Inr f \<Longrightarrow> fs f \<noteq> Some Dir \<Longrightarrow> fs (butlast f) = Some Dir \<Longrightarrow>
   open_w fs p = Inr (fs(f \<mapsto> File []))"
  by (auto simp: open_w_def split: option.splits node.splits)

lemma open_w_result:
  "open_w fs p = Inr fs' \<Longrightarrow>
   \<exists>f. resolve fs p = Inr f \<and> fs f \<noteq> Some Dir \<and> fs' = fs(f \<mapsto> File [])"
  by (cases "resolve fs p") (auto simp: open_w_def split: option.splits node.splits)

lemma open_r_file:
  "open_r fs p = Inr c \<longleftrightarrow> (\<exists>f. resolve fs p = Inr f \<and> fs f = Some (File c))"
  by (cases "resolve fs p") (auto simp: open_r_def split: option.splits node.splits)

lemma writelines_file:
  "resolve fs p = Inr f \<Longrightarrow> fs f = Some (File c) \<Longrightarrow>
   writelines fs p ls = fs(f \<mapsto> File (c @ concat ls))"
  by (simp add: writelines_def)

text \<open>Opening a file for writing and writing lines to it twice.\<close>

lemma write_two:
  assumes "open_w fs p = Inr fs3"
  shows "\<exists>f. resolve fs p = Inr f \<and> fs f \<noteq> Some Dir \<and>
           writelines (writelines fs3 p ls1) p ls2 = fs(f \<mapsto> File (concat ls1 @ concat ls2)) \<and>
           resolve (fs(f \<mapsto> File (concat ls1 @ concat ls2))) p = Inr f"
proof -
  from open_w_result [OF assms] obtain f where
    f: "resolve fs p = Inr f" "fs f \<noteq> Some Dir" and fs3: "fs3 = fs(f \<mapsto> File [])"
    by blast
  have r3: "resolve fs3 p = Inr f"
    unfolding fs3 using f by (rule resolve_fun_upd_file)
  have w1: "writelines fs3 p ls1 = fs(f \<mapsto> File (concat ls1))"
    using writelines_file [OF r3, of "[]" ls1] by (simp add: fs3)
  have r4: "resolve (fs(f \<mapsto> File (concat ls1))) p = Inr f"
    using f by (rule resolve_fun_upd_file)
  have w2: "writelines (fs(f \<mapsto> File (concat ls1))) p ls2
      = fs(f \<mapsto> File (concat ls1 @ concat ls2))"
    using writelines_file [OF r4, of "concat ls1" ls2] by simp
  have r5: "resolve (fs(f \<mapsto> File (concat ls1 @ concat ls2))) p = Inr f"
    using f by (rule resolve_fun_upd_file)
  from f w1 w2 r5 show ?thesis by simp
qed

subsection \<open>package\<close>

lemma all_prefixes_iff:
  "(\<forall>q. prefix q p \<longrightarrow> P q) \<longleftrightarrow> list_all P (prefixes p)"
  by (auto simp: list_all_iff in_set_prefixes)

lemma package_steps:
  assumes install: "cmake_install fs = Inr fs1"
    and notice: "open_r fs1 (os_path_join (source_folder self) ''NOTICE.txt'') = Inr notice"
    and license: "open_r fs1 (os_path_join (source_folder self) ''LICENSE.txt'') = Inr license"
  shows "ThinkboxMYLibraryConan_package cmake_install self fs =
    (case os_makedirs fs1 (os_path_join (package_folder self) ''licenses'') True of
       Inl e \<Rightarrow> Inl e
     | Inr fs2 \<Rightarrow>
         (case open_w fs2 (os_path_join (os_path_join (package_folder self) ''licenses'') ''LICENSE'') of
            Inl e \<Rightarrow> Inl e
          | Inr fs3 \<Rightarrow>
              Inr (writelines (writelines fs3
                (os_path_join (os_path_join (package_folder self) ''licenses'') ''LICENSE'')
                (readlines notice))
                (os_path_join (os_path_join (package_folder self) ''licenses'') ''LICENSE'')
                (readlines license))))"
  by (cases "os_makedirs fs1 (os_path_join (package_folder self) ''licenses'') True")
     (simp_all add: ThinkboxMYLibraryConan_package_def install notice license Let_def)

lemma package_writes_concatenation:
  assumes install: "cmake_install fs = Inr fs1"
    and notice: "open_r fs1 (os_path_join (source_folder self) ''NOTICE.txt'') = Inr notice"
    and license: "open_r fs1 (os_path_join (source_folder self) ''LICENSE.txt'') = Inr license"
    and ok: "ThinkboxMYLibraryConan_package cmake_install self fs = Inr fs'"
  shows "open_r fs' (os_path_join (os_path_join (package_folder self) ''licenses'') ''LICENSE'')
           = Inr (notice @ license) \<and>
         (\<exists>p. resolve fs1 (package_folder self) = Inr p \<and>
              fs' (p @ [''licenses'', ''LICENSE'']) = Some (File (notice @ license)))"
proof -
  let ?t = "os_path_join (os_path_join (package_folder self) ''licenses'') ''LICENSE''"
  note steps = package_steps [of cmake_install fs fs1 self notice license, OF install notice license]
  from ok obtain fs2 fs3 where
    mk: "os_makedirs fs1 (os_path_join (package_folder self) ''licenses'') True = Inr fs2"
    and ow: "open_w fs2 ?t = Inr fs3"
    and fs': "fs' = writelines (writelines fs3 ?t (readlines notice)) ?t (readlines license)"
    unfolding steps by (auto split: sum.splits)
  from os_makedirs_resolves [OF mk] obtain l where
    l: "resolve fs1 (os_path_join (package_folder self) ''licenses'') = Inr l"
    by blast
  from resolve_join_plainD [of "''licenses''" fs1 "package_folder self" l] l obtain p where
    p: "resolve fs1 (package_folder self) = Inr p" and "l = p @ [''licenses'']"
    by auto
  have "resolve fs2 (package_folder self) = Inr p"
    using mk p by (rule os_makedirs_resolve)
  then have t: "resolve fs2 ?t = Inr (p @ [''licenses'', ''LICENSE''])"
    using resolve_join_plainI [of "''licenses''" fs2 "package_folder self" p]
      resolve_join_plainI [of "''LICENSE''" fs2 "os_path_join (package_folder self) ''licenses''"
        "p @ [''licenses'']"]
    by simp
  from write_two [OF ow, of "readlines notice" "readlines license"] t
  have "fs' = fs2(p @ [''licenses'', ''LICENSE''] \<mapsto> File (notice @ license))"
    and "resolve fs' ?t = Inr (p @ [''licenses'', ''LICENSE''])"
    by (auto simp: fs' concat_readlines)
  then show ?thesis
    using p by (auto simp: open_r_file)
qed

lemma package_succeeds:
  assumes install: "cmake_install fs = Inr fs1"
    and notice: "open_r fs1 (os_path_join (source_folder self) ''NOTICE.txt'') = Inr notice"
    and license: "open_r fs1 (os_path_join (source_folder self) ''LICENSE.txt'') = Inr license"
    and p: "resolve fs1 (package_folder self) = Inr p"
    and above: "\<forall>q. prefix q (p @ [''licenses'']) \<longrightarrow> \<not> is_file (fs1 q)"
    and target: "fs1 (p @ [''licenses'', ''LICENSE'']) \<noteq> Some Dir"
  shows "\<exists>fs'. ThinkboxMYLibraryConan_package cmake_install self fs = Inr fs'"
proof -
  let ?l = "os_path_join (package_folder self) ''licenses''"
  let ?t = "os_path_join ?l ''LICENSE''"
  have l: "resolve fs1 ?l = Inr (p @ [''licenses''])"
    using resolve_join_plainI [of "''licenses''" fs1 "package_folder self" p] p by simp
  from os_makedirs_succeeds [OF l above] obtain fs2 where
    mk: "os_makedirs fs1 ?l True = Inr fs2"
    by blast
  from os_makedirs_resolves [OF mk] l have dir: "fs2 (p @ [''licenses'']) = Some Dir"
    by simp
  have same: "fs2 (p @ [''licenses'', ''LICENSE'']) = fs1 (p @ [''licenses'', ''LICENSE''])"
    using os_makedirs_elsewhere [OF mk l, of "p @ [''licenses'', ''LICENSE'']"]
    by (simp add: prefix_def)
  have "resolve fs2 (package_folder self) = Inr p"
    using mk p by (rule os_makedirs_resolve)
  then have t: "resolve fs2 ?t = Inr (p @ [''licenses'', ''LICENSE''])"
    using resolve_join_plainI [of "''licenses''" fs2 "package_folder self" p]
      resolve_join_plainI [of "''LICENSE''" fs2 ?l "p @ [''licenses'']"]
    by simp
  have "open_w fs2 ?t = Inr (fs2(p @ [''licenses'', ''LICENSE''] \<mapsto> File []))"
    using t by (rule open_w_succeeds) (simp_all add: same target butlast_append dir)
  then show ?thesis
    unfolding package_steps [of cmake_install fs fs1 self notice license, OF install notice license]
    by (simp add: mk)
qed

text \<open>
  Claim C5. Let \<^verbatim>\<open>cmake.install()\<close> have returned, and let opening \<^verbatim>\<open>NOTICE.txt\<close> and
  \<^verbatim>\<open>LICENSE.txt\<close> of the source folder for reading give the texts \<open>notice\<close> and
  \<open>license\<close>. Whenever \<^verbatim>\<open>ThinkboxMYLibraryConan.package\<close> returns, the package folder
  names a place \<open>p\<close> of the tree and the file \<^verbatim>\<open>licenses/LICENSE\<close> there holds exactly
  \<open>notice\<close> followed by \<open>license\<close>, which is also what opening
  \<^verbatim>\<open>os.path.join(package_folder, 'licenses', 'LICENSE')\<close> for reading gives afterwards;
  and it does return when the package folder names a place \<open>p\<close>, no regular file lies at or
  above the \<^verbatim>\<open>licenses\<close> directory there and \<^verbatim>\<open>licenses/LICENSE\<close> is no directory.
\<close>

theorem ThinkboxMYLibraryConan_package_license:
  assumes "cmake_install fs = Inr fs1"
    and "open_r fs1 (os_path_join (source_folder self) ''NOTICE.txt'') = Inr notice"
    and "open_r fs1 (os_path_join (source_folder self) ''LICENSE.txt'') = Inr license"
  shows "(\<forall>fs'. ThinkboxMYLibraryConan_package cmake_install self fs = Inr fs' \<longrightarrow>
            open_r fs' (os_path_join (os_path_join (package_folder self) ''licenses'') ''LICENSE'')
              = Inr (notice @ license) \<and>
            (\<exists>p. resolve fs1 (package_folder self) = Inr p \<and>
                 fs' (p @ [''licenses'', ''LICENSE'']) = Some (File (notice @ license)))) \<and>
         (\<forall>p. resolve fs1 (package_folder self) = Inr p \<and>
              (\<forall>q. prefix q (p @ [''licenses'']) \<longrightarrow> \<not> is_file (fs1 q)) \<and>
              fs1 (p @ [''licenses'', ''LICENSE'']) \<noteq> Some Dir \<longrightarrow>
            (\<exists>fs'. ThinkboxMYLibraryConan_package cmake_install self fs = Inr fs'))"
  using assms package_writes_concatenation [of cmake_install fs fs1 self notice license]
    package_succeeds [of cmake_install fs fs1 self notice license]
  by blast

lemma package_example:
  "open_r (map_of [([], Dir), ([''s''], Dir), ([''s'', ''NOTICE.txt''], File ''A\<newline>''),
                ([''s'', ''LICENSE.txt''], File ''B\<newline>''), ([''p''], Dir)])
      (os_path_join ''/s'' ''NOTICE.txt'') = Inr ''A\<newline>''"
  "open_r (map_of [([], Dir), ([''s''], Dir), ([''s'', ''NOTICE.txt''], File ''A\<newline>''),
                ([''s'', ''LICENSE.txt''], File ''B\<newline>''), ([''p''], Dir)])
      (os_path_join ''/s'' ''LICENSE.txt'') = Inr ''B\<newline>''"
  "resolve (map_of [([], Dir), ([''s''], Dir), ([''s'', ''NOTICE.txt''], File ''A\<newline>''),
                ([''s'', ''LICENSE.txt''], File ''B\<newline>''), ([''p''], Dir)]) ''/p'' = Inr [''p'']"
  "list_all (\<lambda>q. \<not> is_file (map_of [([], Dir), ([''s''], Dir), ([''s'', ''NOTICE.txt''], File ''A\<newline>''),
                ([''s'', ''LICENSE.txt''], File ''B\<newline>''), ([''p''], Dir)] q))
      (prefixes [''p'', ''licenses''])"
  by code_simp+

text \<open>
  The notice \<^verbatim>\<open>A\<close> and the license \<^verbatim>\<open>B\<close>, each one line ended by a newline, with a
  \<^verbatim>\<open>cmake.install()\<close> that changes nothing: the licence file holds the two lines in that
  order.
\<close>

theorem ThinkboxMYLibraryConan_package_license_witness:
  "\<exists>fs'. ThinkboxMYLibraryConan_package Inr
       \<lparr>settings_os = ''Linux'', settings_compiler = ''gcc'', settings_compiler_version = ''9'',
        options_maya_version = Some ''2023'', options_mayasdk_maya_version = Some ''2023'',
        source_folder = ''/s'', package_folder = ''/p''\<rparr>
       (map_of [([], Dir), ([''s''], Dir), ([''s'', ''NOTICE.txt''], File ''A\<newline>''),
                ([''s'', ''LICENSE.txt''], File ''B\<newline>''), ([''p''], Dir)]) = Inr fs' \<and>
     fs' [''p'', ''licenses'', ''LICENSE''] = Some (File ''A\<newline>B\<newline>'') \<and>
     open_r fs' (os_path_join (os_path_join ''/p'' ''licenses'') ''LICENSE'') = Inr ''A\<newline>B\<newline>''"
  using ThinkboxMYLibraryConan_package_license
    [of Inr
       "map_of [([], Dir), ([''s''], Dir), ([''s'', ''NOTICE.txt''], File ''A\<newline>''),
                ([''s'', ''LICENSE.txt''], File ''B\<newline>''), ([''p''], Dir)]"
       "map_of [([], Dir), ([''s''], Dir), ([''s'', ''NOTICE.txt''], File ''A\<newline>''),
                ([''s'', ''LICENSE.txt''], File ''B\<newline>''), ([''p''], Dir)]"
       "\<lparr>settings_os = ''Linux'', settings_compiler = ''gcc'', settings_compiler_version = ''9'',
        options_maya_version = Some ''2023'', options_mayasdk_maya_version = Some ''2023'',
        source_folder = ''/s'', package_folder = ''/p''\<rparr>"
       "''A\<newline>''" "''B\<newline>''"]
    package_example
  by (simp add: all_prefixes_iff) blast

subsection \<open>Removing, creating and copying\<close>






lemma wf_filesystem_above:
  "wf_filesystem fs \<Longrightarrow> fs p \<noteq> None \<Longrightarrow> strict_prefix q p \<Longrightarrow> fs q = Some Dir"
  unfolding wf_filesystem_def by blast





subsection \<open>Library file names\<close>





subsection \<open>The copy loop\<close>




subsection \<open>Copying the headers\<close>





subsection \<open>Copying the libraries\<close>







subsection \<open>build\<close>




subsection \<open>When build returns\<close>








subsection \<open>The claim about build\<close>




text \<open>
  A \<^verbatim>\<open>maya_path\<close> that leads through a missing directory: with the complete installation
  in \<^verbatim>\<open>/m\<close> and no \<^verbatim>\<open>/m/zzz\<close>, the path \<^verbatim>\<open>/m/zzz/..\<close> names no place and build raises
  \<open>FileNotFoundError\<close>; once \<^verbatim>\<open>/m/zzz\<close> is a directory the same path names \<^verbatim>\<open>/m\<close>.
\<close>

lemma build_through_missing_directory:
  "MayaSDKConan_build
     \<lparr>settings_os = ''Linux'', settings_compiler = ''gcc'', settings_compiler_version = ''9'',
      options_maya_version = Some ''2023'', options_maya_path = Some ''/m/zzz/..'',
      build_folder = ''/b''\<rparr>
     (map_of ([([], Dir), ([''m''], Dir), ([''m'', ''include''], Dir),
               ([''m'', ''include'', ''maya''], Dir), ([''m'', ''lib''], Dir)]
              @ map (\<lambda>lib. ([''m'', ''lib'', ''lib'' @ lib @ ''.so''], File lib)) MAYA_SDK_LIBS))
   = Inl FileNotFoundError"
  "resolve
     (map_of ([([], Dir), ([''m''], Dir), ([''m'', ''zzz''], Dir), ([''m'', ''include''], Dir),
               ([''m'', ''include'', ''maya''], Dir), ([''m'', ''lib''], Dir)]
              @ map (\<lambda>lib. ([''m'', ''lib'', ''lib'' @ lib @ ''.so''], File lib)) MAYA_SDK_LIBS))
     ''/m/zzz/..'' = Inr [''m'']"
proof -
  let ?fs = "(map_of ([([], Dir), ([''m''], Dir), ([''m'', ''include''], Dir),
               ([''m'', ''include'', ''maya''], Dir), ([''m'', ''lib''], Dir)]
              @ map (\<lambda>lib. ([''m'', ''lib'', ''lib'' @ lib @ ''.so''], File lib)) MAYA_SDK_LIBS))"
  let ?r = "\<lparr>settings_os = ''Linux'', settings_compiler = ''gcc'', settings_compiler_version = ''9'',
      options_maya_version = Some ''2023'', options_maya_path = Some ''/m/zzz/..'',
      build_folder = ''/b''\<rparr>"
  have "isl (MayaSDKConan_build ?r ?fs) \<and> projl (MayaSDKConan_build ?r ?fs) = FileNotFoundError"
    by code_simp
  then show "MayaSDKConan_build ?r ?fs = Inl FileNotFoundError"
    by (cases "MayaSDKConan_build ?r ?fs") auto
  show "resolve
     (map_of ([([], Dir), ([''m''], Dir), ([''m'', ''zzz''], Dir), ([''m'', ''include''], Dir),
               ([''m'', ''include'', ''maya''], Dir), ([''m'', ''lib''], Dir)]
              @ map (\<lambda>lib. ([''m'', ''lib'', ''lib'' @ lib @ ''.so''], File lib)) MAYA_SDK_LIBS))
     ''/m/zzz/..'' = Inr [''m'']"
    by code_simp
qed

end
